theory Spec2Isabelle
  imports Main
begin

section \<open>The spatial ATAC-seq workflow (wf/__init__.py)\<close>

text \<open>
  The module defines three tasks (\<open>filter_task\<close>, \<open>process_bc_task\<close>,
  \<open>cellranger_task\<close>), the workflow \<open>spatial_atac\<close> that chains them, the
  parameter metadata and one launch plan. Each task builds an argument list and hands it
  to \<open>subprocess.run\<close>; the tools themselves are outside the repository.

  The embedding makes the effects explicit. A task takes the world (the paths that exist
  in the working filesystem and the list of commands handed to \<open>subprocess.run\<close> so
  far) and returns either an exception or a value, together with the world it leaves
  behind: an exception does not undo what was done before it.
\<close>

subsection \<open>Data\<close>

datatype Species = mouse | human

fun Species_value :: "Species \<Rightarrow> string" where
  "Species_value mouse = ''refdata-cellranger-arc-mm10-2020-A-2.0.0''"
| "Species_value human = ''refdata-cellranger-arc-GRCh38-2020-A-2.0.0''"

text \<open>
  \<open>LatchFile(local, remote)\<close> and \<open>LatchDir(local, remote)\<close>: a local path and the
  remote location the artifact is published to. Fetching the remote copy when
  \<open>local_path\<close> is read is the platform's business and is not modelled.
\<close>

datatype LatchFile = LatchFile (local_path: string) (remote_path: string)

datatype LatchDir = LatchDir (dir_local_path: string) (dir_remote_path: string)

datatype error =
    NameError string
  | TypeError
  | FileExistsError string
  | OSError "string list"

text \<open>Values a module-level name can be bound to: an argument list, or anything else.\<close>

datatype pyval = Args "string list" | Object

record world =
  fs :: "string set"
  procs :: "string list list"

text \<open>
  What the code leaves to its surroundings:
  \<^item> \<open>resolve p\<close> is \<open>str(Path(p).resolve())\<close> in the task's working directory
    (the code never changes directory);
  \<^item> \<open>run_tool cmd paths\<close> is the external program: \<open>None\<close> when it cannot be
    started (\<open>subprocess.run\<close> raises \<open>OSError\<close>), otherwise the exit status
    and the paths that exist afterwards.
\<close>

record env =
  resolve :: "string \<Rightarrow> string"
  run_tool :: "string list \<Rightarrow> string set \<Rightarrow> (int \<times> string set) option"

type_synonym 'a result = "(error + 'a) \<times> world"

subsection \<open>Library calls\<close>

text \<open>
  \<open>subprocess.run(cmd)\<close> without \<open>check=True\<close>: waits for the process and returns
  its completed-process object, whatever the exit status.
\<close>

definition subprocess_run :: "env \<Rightarrow> string list \<Rightarrow> world \<Rightarrow> int result" where
  "subprocess_run e cmd w =
     (case run_tool e cmd (fs w) of
        None \<Rightarrow> (Inl (OSError cmd), w)
      | Some (rc, fs') \<Rightarrow> (Inr rc, w\<lparr>fs := fs', procs := procs w @ [cmd]\<rparr>))"

text \<open>
  \<open>os.mkdir(p)\<close> raises \<open>FileExistsError\<close> when the path exists. The working
  directory itself is taken to exist and to be writable.
\<close>

definition os_mkdir :: "string \<Rightarrow> world \<Rightarrow> unit result" where
  "os_mkdir p w =
     (if p \<in> fs w then (Inl (FileExistsError p), w)
      else (Inr (), w\<lparr>fs := insert p (fs w)\<rparr>))"

text \<open>
  The names bound at module level (imports, the enum, the tasks, the metadata, the
  workflow). A name a function reads without assigning it is looked up here; no builtin
  is called \<open>cr_command\<close>.
\<close>

definition module_globals :: "(string \<times> pyval) list" where
  "module_globals = map (\<lambda>n. (n, Object))
     [''Enum'', ''os'', ''Path'', ''subprocess'', ''large_task'', ''workflow'',
      ''LaunchPlan'', ''LatchAuthor'', ''LatchDir'', ''LatchFile'', ''LatchMetadata'',
      ''LatchParameter'', ''LatchRule'', ''Species'', ''filter_task'',
      ''process_bc_task'', ''cellranger_task'', ''metadata'', ''spatial_atac'']"

definition load_global :: "string \<Rightarrow> error + pyval" where
  "load_global n =
     (case map_of module_globals n of
        None \<Rightarrow> Inl (NameError n)
      | Some v \<Rightarrow> Inr v)"

subsection \<open>filter_task\<close>

text \<open>The source's \<open>_bbduk1_cmd\<close> and \<open>_bbduk2_cmd\<close> (an Isabelle name cannot start with an underscore).\<close>

definition u_bbduk1_cmd :: "env \<Rightarrow> LatchFile \<Rightarrow> LatchFile \<Rightarrow> string \<Rightarrow> string list" where
  "u_bbduk1_cmd e r1 r2 run_id =
     (let filtered_r1_l1 = resolve e (run_id @ ''_linker1_R1.fastq.gz'');
          filtered_r2_l1 = resolve e (run_id @ ''_linker1_R2.fastq.gz'')
      in [''bbmap/bbduk.sh'',
          ''in1='' @ local_path r1,
          ''in2='' @ local_path r2,
          ''outm1='' @ filtered_r1_l1,
          ''outm2='' @ filtered_r2_l1,
          ''skipr1=t'',
          ''k=30'',
          ''mm=f'',
          ''rcomp=f'',
          ''restrictleft=103'',
          ''hdist=3'',
          ''stats=/root/'' @ run_id @ ''_linker1_stats.txt'',
          ''threads=86'',
          ''literal=GTGGCCGATGTTTCGCATCGGCGTACGACT''])"

definition u_bbduk2_cmd :: "env \<Rightarrow> string \<Rightarrow> string list" where
  "u_bbduk2_cmd e run_id =
     (let filtered_r1_l1 = resolve e (run_id @ ''_linker1_R1.fastq.gz'');
          filtered_r2_l1 = resolve e (run_id @ ''_linker1_R2.fastq.gz'');
          filtered_r1_l2 = resolve e (run_id @ ''_linker2_R1.fastq.gz'');
          filtered_r2_l2 = resolve e (run_id @ ''_linker2_R2.fastq.gz'')
      in [''bbmap/bbduk.sh'',
          ''in1='' @ filtered_r1_l1,
          ''in2='' @ filtered_r2_l1,
          ''outm1='' @ filtered_r1_l2,
          ''outm2='' @ filtered_r2_l2,
          ''skipr1=t'',
          ''k=30'',
          ''mm=f'',
          ''rcomp=f'',
          ''restrictleft=65'',
          ''hdist=3'',
          ''stats=/root/'' @ run_id @ ''_linker2_stats.txt'',
          ''threads=46'',
          ''literal=ATCCACGTGCTTGAGAGGCCAGAGCATTCG''])"

definition filter_task ::
  "env \<Rightarrow> LatchFile \<Rightarrow> LatchFile \<Rightarrow> string \<Rightarrow> world \<Rightarrow> (LatchFile \<times> LatchFile) result" where
  "filter_task e r1 r2 run_id w =
     (case subprocess_run e (u_bbduk1_cmd e r1 r2 run_id) w of
        (Inl err, w1) \<Rightarrow> (Inl err, w1)
      | (Inr _, w1) \<Rightarrow>
          (let filtered_r1_l2 = resolve e (run_id @ ''_linker2_R1.fastq.gz'');
               filtered_r2_l2 = resolve e (run_id @ ''_linker2_R2.fastq.gz'')
           in case subprocess_run e (u_bbduk2_cmd e run_id) w1 of
                (Inl err, w2) \<Rightarrow> (Inl err, w2)
              | (Inr _, w2) \<Rightarrow>
                  (Inr (LatchFile filtered_r1_l2
                          (''latch:///runs/'' @ run_id @ ''/cellranger_inputs/''
                             @ run_id @ ''_S1_L001_R1_001.fastq.gz''),
                        LatchFile filtered_r2_l2
                          (''latch:///runs/'' @ run_id @ ''/preprocessing/''
                             @ run_id @ ''_linker2_R2.fastq.gz'')),
                   w2)))"

subsection \<open>process_bc_task\<close>

definition u_bc_cmd :: "env \<Rightarrow> LatchFile \<Rightarrow> string \<Rightarrow> string list" where
  "u_bc_cmd e r2 run_id =
     (let outdir = resolve e ''cellranger_inputs/'';
          new_r2 = resolve e (outdir @ ''/'' @ run_id @ ''_S1_L001_R2_001.fastq'');
          r3 = resolve e (outdir @ ''/'' @ run_id @ ''_S1_L001_R3_001.fastq'')
      in [''python'',
          ''bc_process.py'',
          ''--input'',
          local_path r2,
          ''--output_R2'',
          new_r2,
          ''--output_R3'',
          r3])"

definition process_bc_task :: "env \<Rightarrow> LatchFile \<Rightarrow> string \<Rightarrow> world \<Rightarrow> LatchDir result" where
  "process_bc_task e r2 run_id w =
     (let outdir = resolve e ''cellranger_inputs/''
      in case os_mkdir outdir w of
           (Inl err, w1) \<Rightarrow> (Inl err, w1)
         | (Inr _, w1) \<Rightarrow>
             (case subprocess_run e (u_bc_cmd e r2 run_id) w1 of
                (Inl err, w2) \<Rightarrow> (Inl err, w2)
              | (Inr _, w2) \<Rightarrow>
                  (Inr (LatchDir outdir
                          (''latch:///runs/'' @ run_id @ ''/cellranger_inputs/'')),
                   w2)))"

subsection \<open>cellranger_task\<close>

text \<open>
  The list the source binds to \<open>_cr_command\<close>. The call that follows reads the name
  \<open>cr_command\<close>, which the function never assigns, so it is looked up among the
  module's names.
\<close>

definition u_cr_command :: "LatchDir \<Rightarrow> string \<Rightarrow> Species \<Rightarrow> string list" where
  "u_cr_command input_dir run_id species =
     [''cellranger-atac-2.1.0/cellranger-atac'',
      ''count'',
      ''--id='' @ run_id,
      ''--reference='' @ Species_value species,
      ''--fastqs='' @ dir_local_path input_dir,
      ''--localcores=96'',
      ''--localmem=192'',
      ''--force-cells=2500'']"

text \<open>The directory object of the task's \<open>return\<close> statement.\<close>

definition cellranger_outs :: "env \<Rightarrow> string \<Rightarrow> LatchDir" where
  "cellranger_outs e run_id =
     (let local_out = resolve e (run_id @ ''/outs/'')
      in LatchDir local_out (''latch:///runs/'' @ run_id @ ''/outs/''))"

definition cellranger_task :: "env \<Rightarrow> LatchDir \<Rightarrow> string \<Rightarrow> Species \<Rightarrow> world \<Rightarrow> LatchDir result" where
  "cellranger_task e input_dir run_id species w =
     (let u_cr = u_cr_command input_dir run_id species
      in case load_global ''cr_command'' of
           Inl err \<Rightarrow> (Inl err, w)
         | Inr Object \<Rightarrow> (Inl TypeError, w)
         | Inr (Args cr_command) \<Rightarrow>
             (case subprocess_run e cr_command w of
                (Inl err, w1) \<Rightarrow> (Inl err, w1)
              | (Inr _, w1) \<Rightarrow> (Inr (cellranger_outs e run_id), w1)))"

subsection \<open>The workflow and its launch plan\<close>

definition spatial_atac ::
  "env \<Rightarrow> LatchFile \<Rightarrow> LatchFile \<Rightarrow> string \<Rightarrow> Species \<Rightarrow> world \<Rightarrow> LatchDir result" where
  "spatial_atac e r1 r2 run_id species w =
     (case filter_task e r1 r2 run_id w of
        (Inl err, w1) \<Rightarrow> (Inl err, w1)
      | (Inr (filtered_r1, filtered_r2), w1) \<Rightarrow>
          (case process_bc_task e filtered_r2 run_id w1 of
             (Inl err, w2) \<Rightarrow> (Inl err, w2)
           | (Inr input_dir, w2) \<Rightarrow> cellranger_task e input_dir run_id species w2))"

text \<open>
  The launch plan "Test Data". Its files are given by remote location only; the local
  copies' paths are chosen by the platform and are parameters here.
\<close>

definition test_data_r1 :: "string \<Rightarrow> LatchFile" where
  "test_data_r1 lp = LatchFile lp
     ''latch:///BASESPACE_IMPORTS/projects/PL000121/D01033_NG01681_L1/D01033_NG01681_S3_L001_R1_001.fastq.gz''"

definition test_data_r2 :: "string \<Rightarrow> LatchFile" where
  "test_data_r2 lp = LatchFile lp
     ''latch:///BASESPACE_IMPORTS/projects/PL000121/D01033_NG01681_L1/D01033_NG01681_S3_L001_R2_001.fastq.gz''"

definition test_data_run_id :: string where
  "test_data_run_id = ''D01033_NG01681''"

definition test_data_species :: Species where
  "test_data_species = human"

subsection \<open>Parameter metadata: the rule on \<open>run_id\<close>\<close>

text \<open>
  The metadata attaches one rule to \<open>run_id\<close>: the regular expression
  \<^verbatim>\<open>^(D\d{5}_NG\d{5})$\<close>. The module only declares it; nothing in the module
  evaluates it. The expression is a sequence of single-character items, some repeated a
  fixed number of times, between the two anchors; it is kept as that sequence.

  The engine that evaluates the expression is not part of the repository, and engines
  differ in two places: which characters \<open>\d\<close> matches beyond the ASCII digits, and
  whether \<open>$\<close> also matches before a final newline. Both are parameters.
\<close>

datatype atom = Lit char | Digit

definition is_digit :: "char \<Rightarrow> bool" where
  "is_digit c = (c \<in> set ''0123456789'')"

record regex_engine =
  extra_digit :: "char \<Rightarrow> bool"
  dollar_newline :: bool

definition engine_digit :: "regex_engine \<Rightarrow> char \<Rightarrow> bool" where
  "engine_digit g c = (is_digit c \<or> extra_digit g c)"

fun atom_matches :: "regex_engine \<Rightarrow> atom \<Rightarrow> char \<Rightarrow> bool" where
  "atom_matches g (Lit a) c = (a = c)"
| "atom_matches g Digit c = engine_digit g c"

definition run_id_regex :: "(atom \<times> nat) list" where
  "run_id_regex =
     [(Lit CHR ''D'', 1), (Digit, 5), (Lit CHR ''_'', 1), (Lit CHR ''N'', 1),
      (Lit CHR ''G'', 1), (Digit, 5)]"

definition regex_match :: "regex_engine \<Rightarrow> (atom \<times> nat) list \<Rightarrow> string \<Rightarrow> bool" where
  "regex_match g r s =
     (let items = concat (map (\<lambda>(a, n). replicate n a) r)
      in list_all2 (atom_matches g) items s
         \<or> (dollar_newline g \<and> s \<noteq> [] \<and> last s = CHR 0x0A
              \<and> list_all2 (atom_matches g) items (butlast s)))"

definition run_id_rule :: "regex_engine \<Rightarrow> string \<Rightarrow> bool" where
  "run_id_rule g s = regex_match g run_id_regex s"

text \<open>Two engines: ASCII digits and the end of the string only; and the most permissive one.\<close>

definition strict_engine :: regex_engine where
  "strict_engine = \<lparr>extra_digit = (\<lambda>c. False), dollar_newline = False\<rparr>"

definition lenient_engine :: regex_engine where
  "lenient_engine = \<lparr>extra_digit = (\<lambda>c. (128::nat) \<le> of_char c), dollar_newline = True\<rparr>"

text \<open>
  The pattern in the words of the specification, for comparison with the declared rule:
  a letter segment with five digits, an underscore, a letter segment with five digits.
  A letter segment is one or more ASCII letters.
\<close>

definition is_letter :: "char \<Rightarrow> bool" where
  "is_letter c = (c \<in> set ''ABCDEFGHIJKLMNOPQRSTUVWXYZabcdefghijklmnopqrstuvwxyz'')"

definition spec_run_id_pattern :: "string \<Rightarrow> bool" where
  "spec_run_id_pattern s =
     (let seg1 = takeWhile is_letter s;
          rest1 = dropWhile is_letter s;
          dig1 = take 5 rest1;
          rest2 = drop 5 rest1;
          seg2 = takeWhile is_letter (drop 1 rest2);
          dig2 = dropWhile is_letter (drop 1 rest2)
      in seg1 \<noteq> [] \<and> length dig1 = 5 \<and> list_all is_digit dig1
         \<and> take 1 rest2 = ''_''
         \<and> seg2 \<noteq> [] \<and> length dig2 = 5 \<and> list_all is_digit dig2)"

subsection \<open>The remote namespace\<close>

definition categories :: "string list" where
  "categories = [''preprocessing'', ''cellranger_inputs'', ''outs'']"

definition runs_path :: "string \<Rightarrow> string \<Rightarrow> string \<Rightarrow> string" where
  "runs_path run_id category filename =
     ''latch:///runs/'' @ run_id @ ''/'' @ category @ ''/'' @ filename"

subsection \<open>A concrete environment\<close>

text \<open>
  Relative paths resolve under \<open>/root\<close>, and every tool starts, changes nothing and exits with
  the given status.
\<close>

definition demo_resolve :: "string \<Rightarrow> string" where
  "demo_resolve p =
     (let q = (if p \<noteq> [] \<and> last p = CHR ''/'' then butlast p else p)
      in if take 1 q = ''/'' then q else ''/root/'' @ q)"

definition demo_env :: "int \<Rightarrow> env" where
  "demo_env rc = \<lparr>resolve = demo_resolve, run_tool = (\<lambda>cmd paths. Some (rc, paths))\<rparr>"

definition demo_world :: world where
  "demo_world = \<lparr>fs = {}, procs = []\<rparr>"

section \<open>Properties\<close>

subsection \<open>Shared lemmas\<close>

lemma load_global_cr_command: "load_global ''cr_command'' = Inl (NameError ''cr_command'')"
  by (simp add: load_global_def module_globals_def)

lemma cellranger_task_raises:
  "cellranger_task e input_dir run_id species w = (Inl (NameError ''cr_command''), w)"
  by (simp add: cellranger_task_def load_global_cr_command)

lemma subprocess_run_started:
  "run_tool e cmd (fs w) = Some (rc, paths) \<Longrightarrow>
   subprocess_run e cmd w = (Inr rc, w\<lparr>fs := paths, procs := procs w @ [cmd]\<rparr>)"
  by (simp add: subprocess_run_def)

lemma filter_task_started:
  assumes "run_tool e (u_bbduk1_cmd e r1 r2 run_id) (fs w) = Some (rc1, fs1)"
    and "run_tool e (u_bbduk2_cmd e run_id) fs1 = Some (rc2, fs2)"
  shows "filter_task e r1 r2 run_id w =
    (Inr (LatchFile (resolve e (run_id @ ''_linker2_R1.fastq.gz''))
            (''latch:///runs/'' @ run_id @ ''/cellranger_inputs/''
               @ run_id @ ''_S1_L001_R1_001.fastq.gz''),
          LatchFile (resolve e (run_id @ ''_linker2_R2.fastq.gz''))
            (''latch:///runs/'' @ run_id @ ''/preprocessing/''
               @ run_id @ ''_linker2_R2.fastq.gz'')),
     w\<lparr>fs := fs2, procs := procs w @ [u_bbduk1_cmd e r1 r2 run_id, u_bbduk2_cmd e run_id]\<rparr>)"
  using assms by (simp add: filter_task_def subprocess_run_def)

lemma filter_task_Inr:
  assumes "filter_task e r1 r2 run_id w = (Inr out, w')"
  shows "\<exists>rc1 fs1 rc2 fs2.
     run_tool e (u_bbduk1_cmd e r1 r2 run_id) (fs w) = Some (rc1, fs1)
   \<and> run_tool e (u_bbduk2_cmd e run_id) fs1 = Some (rc2, fs2)"
  using assms
  by (auto simp: filter_task_def subprocess_run_def Let_def
      split: option.splits prod.splits sum.splits)

lemma process_bc_task_exists:
  "resolve e ''cellranger_inputs/'' \<in> fs w \<Longrightarrow>
   process_bc_task e r2 run_id w = (Inl (FileExistsError (resolve e ''cellranger_inputs/'')), w)"
  by (simp add: process_bc_task_def os_mkdir_def)

lemma process_bc_task_Inr:
  "process_bc_task e r2 run_id w = (Inr d, w') \<Longrightarrow>
   d = LatchDir (resolve e ''cellranger_inputs/'')
         (''latch:///runs/'' @ run_id @ ''/cellranger_inputs/'')"
  by (auto simp: process_bc_task_def os_mkdir_def subprocess_run_def Let_def
      split: option.splits prod.splits sum.splits if_splits)

text \<open>
  A completed call found the directory absent and created it before the script ran; what
  exists afterwards is what the script left.
\<close>

lemma process_bc_task_creates_outdir:
  "process_bc_task e r2 run_id w = (Inr d, w1) \<Longrightarrow>
   resolve e ''cellranger_inputs/'' \<notin> fs w
   \<and> (\<exists>rc. run_tool e (u_bc_cmd e r2 run_id) (insert (resolve e ''cellranger_inputs/'') (fs w))
          = Some (rc, fs w1))"
  by (auto simp: process_bc_task_def os_mkdir_def subprocess_run_def Let_def
      split: option.splits prod.splits sum.splits if_splits)

text \<open>
  The command list only grows: once the first filter command has run, whatever the later
  stages do comes after it.
\<close>

lemma subprocess_run_procs:
  "\<exists>rest. procs (snd (subprocess_run e cmd w)) = procs w @ rest"
  by (simp add: subprocess_run_def split: option.splits)

lemma process_bc_task_procs:
  "\<exists>rest. procs (snd (process_bc_task e r2 run_id w)) = procs w @ rest"
proof (cases "resolve e ''cellranger_inputs/'' \<in> fs w")
  case True
  then show ?thesis by (simp add: process_bc_task_def os_mkdir_def)
next
  case False
  from subprocess_run_procs [of e "u_bc_cmd e r2 run_id"
      "w\<lparr>fs := insert (resolve e ''cellranger_inputs/'') (fs w)\<rparr>"]
  obtain rest where "procs (snd (subprocess_run e (u_bc_cmd e r2 run_id)
      (w\<lparr>fs := insert (resolve e ''cellranger_inputs/'') (fs w)\<rparr>))) = procs w @ rest"
    by auto
  with False show ?thesis
    by (auto simp: process_bc_task_def os_mkdir_def Let_def split: prod.splits sum.splits)
qed

lemma filter_task_runs_first_command:
  assumes "run_tool e (u_bbduk1_cmd e r1 r2 run_id) (fs w) = Some (rc1, fs1)"
  shows "\<exists>rest. procs (snd (filter_task e r1 r2 run_id w)) =
           procs w @ u_bbduk1_cmd e r1 r2 run_id # rest"
proof -
  let ?w1 = "w\<lparr>fs := fs1, procs := procs w @ [u_bbduk1_cmd e r1 r2 run_id]\<rparr>"
  have first: "subprocess_run e (u_bbduk1_cmd e r1 r2 run_id) w = (Inr rc1, ?w1)"
    using assms by (simp add: subprocess_run_def)
  from subprocess_run_procs [of e "u_bbduk2_cmd e run_id" ?w1]
  obtain rest where "procs (snd (subprocess_run e (u_bbduk2_cmd e run_id) ?w1)) =
      procs w @ u_bbduk1_cmd e r1 r2 run_id # rest"
    by auto
  then show ?thesis
    unfolding filter_task_def first
    by (auto simp: Let_def split: prod.splits sum.splits)
qed

lemma spatial_atac_runs_first_command:
  assumes "run_tool e (u_bbduk1_cmd e r1 r2 run_id) (fs w) = Some (rc1, fs1)"
  shows "\<exists>rest. procs (snd (spatial_atac e r1 r2 run_id species w)) =
           procs w @ u_bbduk1_cmd e r1 r2 run_id # rest"
proof -
  from filter_task_runs_first_command [OF assms]
  obtain rest where f: "procs (snd (filter_task e r1 r2 run_id w)) =
      procs w @ u_bbduk1_cmd e r1 r2 run_id # rest" by blast
  show ?thesis
  proof (cases "filter_task e r1 r2 run_id w")
    case (Pair res w1)
    with f have w1: "procs w1 = procs w @ u_bbduk1_cmd e r1 r2 run_id # rest" by simp
    show ?thesis
    proof (cases res)
      case (Inl err)
      with Pair w1 show ?thesis by (simp add: spatial_atac_def)
    next
      case (Inr files)
      obtain filtered_r1 filtered_r2 where files: "files = (filtered_r1, filtered_r2)"
        by (cases files)
      from process_bc_task_procs [of e filtered_r2 run_id w1]
      obtain more where p: "procs (snd (process_bc_task e filtered_r2 run_id w1)) = procs w1 @ more"
        by blast
      show ?thesis
        using Pair Inr files p w1
        by (auto simp: spatial_atac_def cellranger_task_raises split: prod.splits sum.splits)
    qed
  qed
qed

text \<open>Whatever the counting stage returned would be the directory of its return statement.\<close>

lemma cellranger_task_Inr:
  "cellranger_task e input_dir run_id species w = (Inr d, w') \<Longrightarrow> d = cellranger_outs e run_id"
  by (auto simp: cellranger_task_def split: sum.splits pyval.splits prod.splits)

text \<open>
  The declared rule, in every engine: a string \<open>D\<close>, five digits, \<open>_NG\<close>, five
  digits satisfies it, and a string that satisfies it has that form, with the engine's
  digits and, where the engine allows it, a final newline.
\<close>

lemma digit_not_letter: "is_digit c \<Longrightarrow> \<not> is_letter c"
  by (auto simp: is_digit_def is_letter_def)

lemma letters_DNG: "is_letter CHR ''D''" "is_letter CHR ''N''" "is_letter CHR ''G''"
  "\<not> is_letter CHR ''_''"
  by (simp_all add: is_letter_def)

lemma length_5_cases: "length (a::'a list) = 5 \<Longrightarrow> \<exists>c1 c2 c3 c4 c5. a = [c1, c2, c3, c4, c5]"
  by (auto simp: numeral_eq_Suc length_Suc_conv)

lemma run_id_items:
  "concat (map (\<lambda>(a, n). replicate n a) run_id_regex) =
     [Lit CHR ''D'', Digit, Digit, Digit, Digit, Digit, Lit CHR ''_'', Lit CHR ''N'',
      Lit CHR ''G'', Digit, Digit, Digit, Digit, Digit]"
  by (simp add: run_id_regex_def numeral_eq_Suc)

lemma items_match_iff:
  "list_all2 (atom_matches g)
     [Lit CHR ''D'', Digit, Digit, Digit, Digit, Digit, Lit CHR ''_'', Lit CHR ''N'',
      Lit CHR ''G'', Digit, Digit, Digit, Digit, Digit] s \<longleftrightarrow>
   (\<exists>a b. s = ''D'' @ a @ ''_NG'' @ b \<and> length a = 5 \<and> length b = 5
      \<and> list_all (engine_digit g) a
      \<and> list_all (engine_digit g) b)"
  (is "?L \<longleftrightarrow> ?R")
proof
  assume ?L
  then obtain c1 c2 c3 c4 c5 d1 d2 d3 d4 d5 where
    s: "s = [CHR ''D'', c1, c2, c3, c4, c5, CHR ''_'', CHR ''N'', CHR ''G'', d1, d2, d3, d4, d5]"
    and c: "list_all (engine_digit g) [c1, c2, c3, c4, c5]"
    and d: "list_all (engine_digit g) [d1, d2, d3, d4, d5]"
    by (auto simp: list_all2_Cons1)
  have "s = ''D'' @ [c1, c2, c3, c4, c5] @ ''_NG'' @ [d1, d2, d3, d4, d5]"
    using s by simp
  with c d show ?R
    by (intro exI[of _ "[c1, c2, c3, c4, c5]"] exI[of _ "[d1, d2, d3, d4, d5]"]) simp
next
  assume ?R
  then obtain a b where s: "s = ''D'' @ a @ ''_NG'' @ b" and la: "length a = 5"
    and lb: "length b = 5"
    and da: "list_all (engine_digit g) a"
    and db: "list_all (engine_digit g) b" by blast
  from length_5_cases [OF la] obtain c1 c2 c3 c4 c5 where a: "a = [c1, c2, c3, c4, c5]" by blast
  from length_5_cases [OF lb] obtain d1 d2 d3 d4 d5 where b: "b = [d1, d2, d3, d4, d5]" by blast
  show ?L using da db unfolding s a b by simp
qed

lemma run_id_rule_exact:
  assumes "s = ''D'' @ a @ ''_NG'' @ b" "length a = 5" "length b = 5"
    "list_all is_digit a" "list_all is_digit b"
  shows "run_id_rule g s"
proof -
  have "list_all (engine_digit g) a"
    "list_all (engine_digit g) b"
    using assms(4,5) by (simp_all add: list_all_iff engine_digit_def)
  with assms(1-3) show ?thesis
    unfolding run_id_rule_def regex_match_def Let_def run_id_items items_match_iff by blast
qed

lemma run_id_rule_form:
  assumes "run_id_rule g s"
  shows "\<exists>a b n. s = ''D'' @ a @ ''_NG'' @ b @ n \<and> length a = 5 \<and> length b = 5
      \<and> list_all (engine_digit g) a
      \<and> list_all (engine_digit g) b
      \<and> (n = [] \<or> dollar_newline g \<and> n = [CHR 0x0A])"
proof -
  from assms consider
    (whole) "list_all2 (atom_matches g)
       [Lit CHR ''D'', Digit, Digit, Digit, Digit, Digit, Lit CHR ''_'', Lit CHR ''N'',
        Lit CHR ''G'', Digit, Digit, Digit, Digit, Digit] s"
  | (newline) "dollar_newline g" "s \<noteq> []" "last s = CHR 0x0A"
      "list_all2 (atom_matches g)
       [Lit CHR ''D'', Digit, Digit, Digit, Digit, Digit, Lit CHR ''_'', Lit CHR ''N'',
        Lit CHR ''G'', Digit, Digit, Digit, Digit, Digit] (butlast s)"
    unfolding run_id_rule_def regex_match_def Let_def run_id_items by blast
  then show ?thesis
  proof cases
    case whole
    then obtain a b where "s = ''D'' @ a @ ''_NG'' @ b" "length a = 5" "length b = 5"
      "list_all (engine_digit g) a"
      "list_all (engine_digit g) b"
      unfolding items_match_iff by blast
    then show ?thesis by (intro exI[of _ a] exI[of _ b] exI[of _ "[]"]) simp
  next
    case newline
    from newline(4) obtain a b where t: "butlast s = ''D'' @ a @ ''_NG'' @ b" and
      r: "length a = 5" "length b = 5"
      "list_all (engine_digit g) a"
      "list_all (engine_digit g) b"
      unfolding items_match_iff by blast
    have "s = butlast s @ [last s]" using newline(2) by simp
    with t newline(3) have "s = ''D'' @ a @ ''_NG'' @ b @ [CHR 0x0A]" by simp
    with r newline(1) show ?thesis
      by (intro exI[of _ a] exI[of _ b] exI[of _ "[CHR 0x0A]"]) simp
  qed
qed

lemma exact_matches_words:
  assumes "s = ''D'' @ a @ ''_NG'' @ b" "length a = 5" "length b = 5"
    "list_all is_digit a" "list_all is_digit b"
  shows "spec_run_id_pattern s"
proof -
  from length_5_cases [OF assms(2)] obtain c1 c2 c3 c4 c5 where a: "a = [c1, c2, c3, c4, c5]" by blast
  from length_5_cases [OF assms(3)] obtain d1 d2 d3 d4 d5 where b: "b = [d1, d2, d3, d4, d5]" by blast
  have "\<not> is_letter c1" "\<not> is_letter d1"
    using assms(4,5) digit_not_letter unfolding a b by simp_all
  then show ?thesis
    using assms(4,5) unfolding assms(1) a b
    by (simp add: spec_run_id_pattern_def Let_def letters_DNG)
qed

lemma strict_engine_digit: "engine_digit strict_engine = is_digit"
  by (simp add: engine_digit_def strict_engine_def fun_eq_iff)

text \<open>The first two stages in the concrete environment, for the run of the launch plan.\<close>

lemma demo_filter_task:
  "filter_task (demo_env rc) (test_data_r1 ''/root/r1.fastq.gz'') (test_data_r2 ''/root/r2.fastq.gz'')
      ''D01033_NG01681'' demo_world =
     (Inr (LatchFile ''/root/D01033_NG01681_linker2_R1.fastq.gz''
             ''latch:///runs/D01033_NG01681/cellranger_inputs/D01033_NG01681_S1_L001_R1_001.fastq.gz'',
           LatchFile ''/root/D01033_NG01681_linker2_R2.fastq.gz''
             ''latch:///runs/D01033_NG01681/preprocessing/D01033_NG01681_linker2_R2.fastq.gz''),
      \<lparr>fs = {}, procs =
         [u_bbduk1_cmd (demo_env rc) (test_data_r1 ''/root/r1.fastq.gz'')
            (test_data_r2 ''/root/r2.fastq.gz'') ''D01033_NG01681'',
          u_bbduk2_cmd (demo_env rc) ''D01033_NG01681'']\<rparr>)"
  by (simp add: filter_task_def subprocess_run_def demo_env_def demo_world_def
      demo_resolve_def Let_def)

lemma demo_process_bc_task:
  "process_bc_task (demo_env rc)
        (LatchFile ''/root/D01033_NG01681_linker2_R2.fastq.gz''
           ''latch:///runs/D01033_NG01681/preprocessing/D01033_NG01681_linker2_R2.fastq.gz'')
        ''D01033_NG01681'' demo_world =
       (Inr (LatchDir ''/root/cellranger_inputs'' ''latch:///runs/D01033_NG01681/cellranger_inputs/''),
        \<lparr>fs = {''/root/cellranger_inputs''}, procs =
           [u_bc_cmd (demo_env rc)
              (LatchFile ''/root/D01033_NG01681_linker2_R2.fastq.gz''
                 ''latch:///runs/D01033_NG01681/preprocessing/D01033_NG01681_linker2_R2.fastq.gz'')
              ''D01033_NG01681'']\<rparr>)"
  by (simp add: process_bc_task_def os_mkdir_def subprocess_run_def demo_env_def demo_world_def
      demo_resolve_def Let_def)

subsection \<open>The species enumeration\<close>

text \<open>
  C3. The enumeration has exactly the two members \<open>mouse\<close> and \<open>human\<close>; \<open>mouse\<close>
  has the value \<open>refdata-cellranger-arc-mm10-2020-A-2.0.0\<close>, \<open>human\<close> the value
  \<open>refdata-cellranger-arc-GRCh38-2020-A-2.0.0\<close>, and these two are the only
  reference names a species resolves to.
\<close>

theorem Species_two_variants:
  "Species_value mouse = ''refdata-cellranger-arc-mm10-2020-A-2.0.0''
   \<and> Species_value human = ''refdata-cellranger-arc-GRCh38-2020-A-2.0.0''
   \<and> (UNIV :: Species set) = {mouse, human}
   \<and> range Species_value =
       {''refdata-cellranger-arc-mm10-2020-A-2.0.0'',
        ''refdata-cellranger-arc-GRCh38-2020-A-2.0.0''}"
proof -
  have u: "(UNIV :: Species set) = {mouse, human}"
    by (auto intro: Species.exhaust)
  show ?thesis unfolding u by simp
qed

subsection \<open>The counting stage\<close>

text \<open>
  C2. For every input directory, run identifier and species, in every environment and
  world, \<open>cellranger_task\<close> raises \<open>NameError\<close> for \<open>cr_command\<close> at its call of
  \<open>subprocess.run\<close>: no module-level name \<open>cr_command\<close> exists. The world is left
  as it was, so no command has been handed to \<open>subprocess.run\<close>, and the task never
  returns a directory.
\<close>

theorem cellranger_task_undefined_name:
  "load_global ''cr_command'' = Inl (NameError ''cr_command'')
   \<and> cellranger_task e input_dir run_id species w = (Inl (NameError ''cr_command''), w)
   \<and> procs (snd (cellranger_task e input_dir run_id species w)) = procs w
   \<and> (\<forall>d w'. cellranger_task e input_dir run_id species w \<noteq> (Inr d, w'))"
  by (simp add: cellranger_task_raises load_global_cr_command)

text \<open>
  C7. The counting stage builds the command with the run identifier as \<open>--id\<close>, the
  species' reference, the input directory's local path, 96 cores, 192 GB and 2500 forced
  cells; but the call that should run it raises \<open>NameError\<close>, and the command is not
  run. Evaluated for the run \<open>D01033_NG01681\<close>, species human.
\<close>

theorem cellranger_command_not_run:
  "u_cr_command
      (LatchDir ''/root/cellranger_inputs'' ''latch:///runs/D01033_NG01681/cellranger_inputs/'')
      ''D01033_NG01681'' human =
     [''cellranger-atac-2.1.0/cellranger-atac'', ''count'', ''--id=D01033_NG01681'',
      ''--reference=refdata-cellranger-arc-GRCh38-2020-A-2.0.0'',
      ''--fastqs=/root/cellranger_inputs'',
      ''--localcores=96'', ''--localmem=192'', ''--force-cells=2500'']
   \<and> cellranger_task e
      (LatchDir ''/root/cellranger_inputs'' ''latch:///runs/D01033_NG01681/cellranger_inputs/'')
      ''D01033_NG01681'' human demo_world = (Inl (NameError ''cr_command''), demo_world)
   \<and> procs (snd (cellranger_task e
      (LatchDir ''/root/cellranger_inputs'' ''latch:///runs/D01033_NG01681/cellranger_inputs/'')
      ''D01033_NG01681'' human demo_world)) = []"
  by (simp add: cellranger_task_raises u_cr_command_def demo_world_def)

subsection \<open>The workflow\<close>

text \<open>
  C1. The launch plan "Test Data" (run \<open>D01033_NG01681\<close>, the two read files, species
  human) does not run to completion: in no environment does \<open>spatial_atac\<close> return a
  directory for it. Where every tool starts and exits with status 0, the two filter
  passes and the splitter are run and the counting stage then raises \<open>NameError\<close>.
\<close>

theorem test_data_run_raises:
  "(\<forall>d w'. spatial_atac e (test_data_r1 lp1) (test_data_r2 lp2) test_data_run_id
              test_data_species w \<noteq> (Inr d, w'))
   \<and> spatial_atac (demo_env 0) (test_data_r1 ''/root/r1.fastq.gz'')
        (test_data_r2 ''/root/r2.fastq.gz'') test_data_run_id test_data_species demo_world =
       (Inl (NameError ''cr_command''),
        \<lparr>fs = {''/root/cellranger_inputs''},
         procs =
           [u_bbduk1_cmd (demo_env 0) (test_data_r1 ''/root/r1.fastq.gz'')
              (test_data_r2 ''/root/r2.fastq.gz'') ''D01033_NG01681'',
            u_bbduk2_cmd (demo_env 0) ''D01033_NG01681'',
            [''python'', ''bc_process.py'', ''--input'',
             ''/root/D01033_NG01681_linker2_R2.fastq.gz'',
             ''--output_R2'', ''/root/cellranger_inputs/D01033_NG01681_S1_L001_R2_001.fastq'',
             ''--output_R3'', ''/root/cellranger_inputs/D01033_NG01681_S1_L001_R3_001.fastq'']]\<rparr>)"
proof
  show "\<forall>d w'. spatial_atac e (test_data_r1 lp1) (test_data_r2 lp2) test_data_run_id
                 test_data_species w \<noteq> (Inr d, w')"
    by (simp add: spatial_atac_def cellranger_task_raises split: prod.splits sum.splits)
  have run: "\<And>cmd paths. run_tool (demo_env 0) cmd paths = Some (0, paths)"
    by (simp add: demo_env_def)
  have filt: "filter_task (demo_env 0) (test_data_r1 ''/root/r1.fastq.gz'')
        (test_data_r2 ''/root/r2.fastq.gz'') test_data_run_id demo_world =
      (Inr (LatchFile (resolve (demo_env 0) (test_data_run_id @ ''_linker2_R1.fastq.gz''))
              (''latch:///runs/'' @ test_data_run_id @ ''/cellranger_inputs/''
                 @ test_data_run_id @ ''_S1_L001_R1_001.fastq.gz''),
            LatchFile (resolve (demo_env 0) (test_data_run_id @ ''_linker2_R2.fastq.gz''))
              (''latch:///runs/'' @ test_data_run_id @ ''/preprocessing/''
                 @ test_data_run_id @ ''_linker2_R2.fastq.gz'')),
       demo_world\<lparr>fs := fs demo_world, procs := procs demo_world @
         [u_bbduk1_cmd (demo_env 0) (test_data_r1 ''/root/r1.fastq.gz'')
            (test_data_r2 ''/root/r2.fastq.gz'') test_data_run_id,
          u_bbduk2_cmd (demo_env 0) test_data_run_id]\<rparr>)"
    by (rule filter_task_started [OF run run])
  show "spatial_atac (demo_env 0) (test_data_r1 ''/root/r1.fastq.gz'')
        (test_data_r2 ''/root/r2.fastq.gz'') test_data_run_id test_data_species demo_world =
       (Inl (NameError ''cr_command''),
        \<lparr>fs = {''/root/cellranger_inputs''},
         procs =
           [u_bbduk1_cmd (demo_env 0) (test_data_r1 ''/root/r1.fastq.gz'')
              (test_data_r2 ''/root/r2.fastq.gz'') ''D01033_NG01681'',
            u_bbduk2_cmd (demo_env 0) ''D01033_NG01681'',
            [''python'', ''bc_process.py'', ''--input'',
             ''/root/D01033_NG01681_linker2_R2.fastq.gz'',
             ''--output_R2'', ''/root/cellranger_inputs/D01033_NG01681_S1_L001_R2_001.fastq'',
             ''--output_R3'', ''/root/cellranger_inputs/D01033_NG01681_S1_L001_R3_001.fastq'']]\<rparr>)"
    unfolding spatial_atac_def filt
    by (simp add: cellranger_task_raises process_bc_task_def os_mkdir_def subprocess_run_def
        u_bc_cmd_def demo_env_def demo_world_def demo_resolve_def test_data_run_id_def Let_def)
qed

subsection \<open>The filter stage\<close>

text \<open>
  C6. Where both processes can be started, the filter stage hands exactly two commands
  to \<open>subprocess.run\<close>, in this order and after whatever ran before. Both call
  \<open>bbmap/bbduk.sh\<close> with \<open>skipr1=t\<close>, \<open>rcomp=f\<close>, \<open>hdist=3\<close> and a fixed
  \<open>literal\<close>, and write the matching reads (\<open>outm1\<close>, \<open>outm2\<close>); the first has
  \<open>restrictleft=103\<close>, the second \<open>restrictleft=65\<close>; the second reads as
  \<open>in1\<close>, \<open>in2\<close> the files the first wrote as \<open>outm1\<close>, \<open>outm2\<close>; each names
  its statistics file after the run identifier and its pass,
  \<open>/root/<run_id>_linker1_stats.txt\<close> and \<open>/root/<run_id>_linker2_stats.txt\<close>.
\<close>

theorem filter_task_two_passes:
  "run_tool e (u_bbduk1_cmd e r1 r2 run_id) (fs w) = Some (rc1, fs1) \<Longrightarrow>
   run_tool e (u_bbduk2_cmd e run_id) fs1 = Some (rc2, fs2) \<Longrightarrow>
   procs (snd (filter_task e r1 r2 run_id w)) = procs w @
     [[''bbmap/bbduk.sh'',
       ''in1='' @ local_path r1,
       ''in2='' @ local_path r2,
       ''outm1='' @ resolve e (run_id @ ''_linker1_R1.fastq.gz''),
       ''outm2='' @ resolve e (run_id @ ''_linker1_R2.fastq.gz''),
       ''skipr1=t'', ''k=30'', ''mm=f'', ''rcomp=f'', ''restrictleft=103'', ''hdist=3'',
       ''stats=/root/'' @ run_id @ ''_linker1_stats.txt'',
       ''threads=86'',
       ''literal=GTGGCCGATGTTTCGCATCGGCGTACGACT''],
      [''bbmap/bbduk.sh'',
       ''in1='' @ resolve e (run_id @ ''_linker1_R1.fastq.gz''),
       ''in2='' @ resolve e (run_id @ ''_linker1_R2.fastq.gz''),
       ''outm1='' @ resolve e (run_id @ ''_linker2_R1.fastq.gz''),
       ''outm2='' @ resolve e (run_id @ ''_linker2_R2.fastq.gz''),
       ''skipr1=t'', ''k=30'', ''mm=f'', ''rcomp=f'', ''restrictleft=65'', ''hdist=3'',
       ''stats=/root/'' @ run_id @ ''_linker2_stats.txt'',
       ''threads=46'',
       ''literal=ATCCACGTGCTTGAGAGGCCAGAGCATTCG'']]"
proof -
  assume "run_tool e (u_bbduk1_cmd e r1 r2 run_id) (fs w) = Some (rc1, fs1)"
    and "run_tool e (u_bbduk2_cmd e run_id) fs1 = Some (rc2, fs2)"
  from filter_task_started [OF this]
  have "procs (snd (filter_task e r1 r2 run_id w)) =
      procs w @ [u_bbduk1_cmd e r1 r2 run_id, u_bbduk2_cmd e run_id]"
    by simp
  then show ?thesis
    by (simp add: u_bbduk1_cmd_def u_bbduk2_cmd_def Let_def)
qed

theorem filter_task_two_passes_witness:
  "procs (snd (filter_task (demo_env 0) (test_data_r1 ''/root/r1.fastq.gz'')
      (test_data_r2 ''/root/r2.fastq.gz'') ''D01033_NG01681'' demo_world)) =
     [[''bbmap/bbduk.sh'',
       ''in1=/root/r1.fastq.gz'',
       ''in2=/root/r2.fastq.gz'',
       ''outm1=/root/D01033_NG01681_linker1_R1.fastq.gz'',
       ''outm2=/root/D01033_NG01681_linker1_R2.fastq.gz'',
       ''skipr1=t'', ''k=30'', ''mm=f'', ''rcomp=f'', ''restrictleft=103'', ''hdist=3'',
       ''stats=/root/D01033_NG01681_linker1_stats.txt'',
       ''threads=86'',
       ''literal=GTGGCCGATGTTTCGCATCGGCGTACGACT''],
      [''bbmap/bbduk.sh'',
       ''in1=/root/D01033_NG01681_linker1_R1.fastq.gz'',
       ''in2=/root/D01033_NG01681_linker1_R2.fastq.gz'',
       ''outm1=/root/D01033_NG01681_linker2_R1.fastq.gz'',
       ''outm2=/root/D01033_NG01681_linker2_R2.fastq.gz'',
       ''skipr1=t'', ''k=30'', ''mm=f'', ''rcomp=f'', ''restrictleft=65'', ''hdist=3'',
       ''stats=/root/D01033_NG01681_linker2_stats.txt'',
       ''threads=46'',
       ''literal=ATCCACGTGCTTGAGAGGCCAGAGCATTCG'']]"
proof -
  have h1: "run_tool (demo_env 0) (u_bbduk1_cmd (demo_env 0) (test_data_r1 ''/root/r1.fastq.gz'')
       (test_data_r2 ''/root/r2.fastq.gz'') ''D01033_NG01681'') (fs demo_world) = Some (0, {})"
    by (simp add: demo_env_def demo_world_def)
  have h2: "run_tool (demo_env 0) (u_bbduk2_cmd (demo_env 0) ''D01033_NG01681'') {} = Some (0, {})"
    by (simp add: demo_env_def)
  from filter_task_two_passes [OF h1 h2]
  show ?thesis
    by (simp add: demo_world_def demo_env_def demo_resolve_def test_data_r1_def test_data_r2_def)
qed

text \<open>
  C10. Whatever the exit statuses \<open>rc1\<close> and \<open>rc2\<close> of the two passes, zero or not,
  once both processes have been started and have exited the filter stage returns its two
  file descriptors: the exit status is not looked at.
\<close>

theorem filter_task_ignores_exit_status:
  "run_tool e (u_bbduk1_cmd e r1 r2 run_id) (fs w) = Some (rc1, fs1) \<Longrightarrow>
   run_tool e (u_bbduk2_cmd e run_id) fs1 = Some (rc2, fs2) \<Longrightarrow>
   fst (filter_task e r1 r2 run_id w) =
     Inr (LatchFile (resolve e (run_id @ ''_linker2_R1.fastq.gz''))
            (''latch:///runs/'' @ run_id @ ''/cellranger_inputs/''
               @ run_id @ ''_S1_L001_R1_001.fastq.gz''),
          LatchFile (resolve e (run_id @ ''_linker2_R2.fastq.gz''))
            (''latch:///runs/'' @ run_id @ ''/preprocessing/''
               @ run_id @ ''_linker2_R2.fastq.gz''))"
  by (simp add: filter_task_started)

theorem filter_task_ignores_exit_status_witness:
  "run_tool (demo_env 1) (u_bbduk1_cmd (demo_env 1) (test_data_r1 ''/root/r1.fastq.gz'')
       (test_data_r2 ''/root/r2.fastq.gz'') ''D01033_NG01681'') (fs demo_world) = Some (1, {})
   \<and> run_tool (demo_env 1) (u_bbduk2_cmd (demo_env 1) ''D01033_NG01681'') {} = Some (1, {})
   \<and> fst (filter_task (demo_env 1) (test_data_r1 ''/root/r1.fastq.gz'')
        (test_data_r2 ''/root/r2.fastq.gz'') ''D01033_NG01681'' demo_world) =
       Inr (LatchFile ''/root/D01033_NG01681_linker2_R1.fastq.gz''
              ''latch:///runs/D01033_NG01681/cellranger_inputs/D01033_NG01681_S1_L001_R1_001.fastq.gz'',
            LatchFile ''/root/D01033_NG01681_linker2_R2.fastq.gz''
              ''latch:///runs/D01033_NG01681/preprocessing/D01033_NG01681_linker2_R2.fastq.gz'')"
proof -
  have h1: "run_tool (demo_env 1) (u_bbduk1_cmd (demo_env 1) (test_data_r1 ''/root/r1.fastq.gz'')
       (test_data_r2 ''/root/r2.fastq.gz'') ''D01033_NG01681'') (fs demo_world) = Some (1, {})"
    by (simp add: demo_env_def demo_world_def)
  have h2: "run_tool (demo_env 1) (u_bbduk2_cmd (demo_env 1) ''D01033_NG01681'') {} = Some (1, {})"
    by (simp add: demo_env_def)
  from filter_task_ignores_exit_status [OF h1 h2] h1 h2
  show ?thesis by (simp add: demo_env_def demo_resolve_def)
qed

subsection \<open>The barcode splitter stage\<close>

text \<open>
  C8. After the splitter stage has completed once for a run identifier, and while the
  directory it returned still exists in the working filesystem, a second call for the
  same run identifier raises \<open>FileExistsError\<close> at \<open>os.mkdir\<close>. The world is left
  as it was: the splitter script is not run again.
\<close>

theorem process_bc_task_rerun_fails:
  "process_bc_task e r2 run_id w = (Inr d, w1) \<Longrightarrow> dir_local_path d \<in> fs w1 \<Longrightarrow>
   process_bc_task e r2' run_id w1 = (Inl (FileExistsError (dir_local_path d)), w1)
   \<and> procs (snd (process_bc_task e r2' run_id w1)) = procs w1"
proof -
  assume a: "process_bc_task e r2 run_id w = (Inr d, w1)" and b: "dir_local_path d \<in> fs w1"
  from process_bc_task_Inr [OF a] have d: "dir_local_path d = resolve e ''cellranger_inputs/''"
    by simp
  with b have "resolve e ''cellranger_inputs/'' \<in> fs w1" by simp
  from process_bc_task_exists [OF this] d show ?thesis by simp
qed

theorem process_bc_task_rerun_fails_witness:
  "process_bc_task (demo_env 0)
        (LatchFile ''/root/D01033_NG01681_linker2_R2.fastq.gz''
           ''latch:///runs/D01033_NG01681/preprocessing/D01033_NG01681_linker2_R2.fastq.gz'')
        ''D01033_NG01681'' demo_world =
       (Inr (LatchDir ''/root/cellranger_inputs'' ''latch:///runs/D01033_NG01681/cellranger_inputs/''),
        \<lparr>fs = {''/root/cellranger_inputs''}, procs =
           [u_bc_cmd (demo_env 0)
              (LatchFile ''/root/D01033_NG01681_linker2_R2.fastq.gz''
                 ''latch:///runs/D01033_NG01681/preprocessing/D01033_NG01681_linker2_R2.fastq.gz'')
              ''D01033_NG01681'']\<rparr>)
   \<and> process_bc_task (demo_env 0)
        (LatchFile ''/root/D01033_NG01681_linker2_R2.fastq.gz''
           ''latch:///runs/D01033_NG01681/preprocessing/D01033_NG01681_linker2_R2.fastq.gz'')
        ''D01033_NG01681''
        \<lparr>fs = {''/root/cellranger_inputs''}, procs =
           [u_bc_cmd (demo_env 0)
              (LatchFile ''/root/D01033_NG01681_linker2_R2.fastq.gz''
                 ''latch:///runs/D01033_NG01681/preprocessing/D01033_NG01681_linker2_R2.fastq.gz'')
              ''D01033_NG01681'']\<rparr> =
       (Inl (FileExistsError ''/root/cellranger_inputs''),
        \<lparr>fs = {''/root/cellranger_inputs''}, procs =
           [u_bc_cmd (demo_env 0)
              (LatchFile ''/root/D01033_NG01681_linker2_R2.fastq.gz''
                 ''latch:///runs/D01033_NG01681/preprocessing/D01033_NG01681_linker2_R2.fastq.gz'')
              ''D01033_NG01681'']\<rparr>)"
proof -
  have h: "dir_local_path (LatchDir ''/root/cellranger_inputs''
       ''latch:///runs/D01033_NG01681/cellranger_inputs/'') \<in>
     fs \<lparr>fs = {''/root/cellranger_inputs''}, procs =
           [u_bc_cmd (demo_env 0)
              (LatchFile ''/root/D01033_NG01681_linker2_R2.fastq.gz''
                 ''latch:///runs/D01033_NG01681/preprocessing/D01033_NG01681_linker2_R2.fastq.gz'')
              ''D01033_NG01681'']\<rparr>"
    by simp
  from process_bc_task_rerun_fails [OF demo_process_bc_task [of 0] h] demo_process_bc_task [of 0]
  show ?thesis by simp
qed

text \<open>
  C9. The directory the splitter stage works in is \<open>cellranger_inputs/\<close> resolved in
  the working directory, whatever the run identifier. So after one completed call, and
  while that directory exists, a call with any run identifier, the same or another,
  raises \<open>FileExistsError\<close>.
\<close>

theorem process_bc_task_outdir_fixed:
  "process_bc_task e r2 run_id w = (Inr d, w1) \<Longrightarrow> resolve e ''cellranger_inputs/'' \<in> fs w1 \<Longrightarrow>
   dir_local_path d = resolve e ''cellranger_inputs/''
   \<and> process_bc_task e r2' run_id' w1 =
       (Inl (FileExistsError (resolve e ''cellranger_inputs/'')), w1)"
proof -
  assume a: "process_bc_task e r2 run_id w = (Inr d, w1)"
    and b: "resolve e ''cellranger_inputs/'' \<in> fs w1"
  from process_bc_task_Inr [OF a] process_bc_task_exists [OF b]
  show ?thesis by simp
qed

theorem process_bc_task_outdir_fixed_witness:
  "''D01033_NG01681'' \<noteq> ''D01034_NG01682''
   \<and> resolve (demo_env 0) ''cellranger_inputs/'' = ''/root/cellranger_inputs''
   \<and> fst (process_bc_task (demo_env 0)
        (LatchFile ''/root/D01033_NG01681_linker2_R2.fastq.gz''
           ''latch:///runs/D01033_NG01681/preprocessing/D01033_NG01681_linker2_R2.fastq.gz'')
        ''D01033_NG01681'' demo_world) =
       Inr (LatchDir ''/root/cellranger_inputs'' ''latch:///runs/D01033_NG01681/cellranger_inputs/'')
   \<and> fst (process_bc_task (demo_env 0)
        (LatchFile ''/root/D01034_NG01682_linker2_R2.fastq.gz''
           ''latch:///runs/D01034_NG01682/preprocessing/D01034_NG01682_linker2_R2.fastq.gz'')
        ''D01034_NG01682''
        (snd (process_bc_task (demo_env 0)
          (LatchFile ''/root/D01033_NG01681_linker2_R2.fastq.gz''
             ''latch:///runs/D01033_NG01681/preprocessing/D01033_NG01681_linker2_R2.fastq.gz'')
          ''D01033_NG01681'' demo_world))) =
       Inl (FileExistsError ''/root/cellranger_inputs'')"
proof -
  have r: "resolve (demo_env 0) ''cellranger_inputs/'' = ''/root/cellranger_inputs''"
    by (simp add: demo_env_def demo_resolve_def)
  have h: "resolve (demo_env 0) ''cellranger_inputs/'' \<in>
     fs \<lparr>fs = {''/root/cellranger_inputs''}, procs =
           [u_bc_cmd (demo_env 0)
              (LatchFile ''/root/D01033_NG01681_linker2_R2.fastq.gz''
                 ''latch:///runs/D01033_NG01681/preprocessing/D01033_NG01681_linker2_R2.fastq.gz'')
              ''D01033_NG01681'']\<rparr>"
    by (simp add: r)
  from process_bc_task_outdir_fixed [OF demo_process_bc_task [of 0] h,
      of "LatchFile ''/root/D01034_NG01682_linker2_R2.fastq.gz''
           ''latch:///runs/D01034_NG01682/preprocessing/D01034_NG01682_linker2_R2.fastq.gz''"
         "''D01034_NG01682''"]
  show ?thesis by (simp add: r demo_process_bc_task)
qed

subsection \<open>Published locations\<close>

text \<open>
  C5. Every remote location a stage returns is \<open>latch:///runs/<run_id>/<category>/<filename>\<close>
  with the category one of \<open>preprocessing\<close>, \<open>cellranger_inputs\<close>, \<open>outs\<close>, so
  each begins with \<open>runs/<run_id>/\<close>. The filter stage returns two files, under
  \<open>cellranger_inputs\<close> and \<open>preprocessing\<close>. The splitter stage returns the directory
  \<open>cellranger_inputs/\<close>. Whatever the counting stage returns is the directory of its
  return statement, \<open>outs/\<close>. For a directory the file-name part is empty, its files
  being published beneath it.
\<close>

theorem published_paths_in_run_namespace:
  "(filter_task e r1 r2 run_id w = (Inr (f1, f2), w1) \<longrightarrow>
      remote_path f1 = runs_path run_id ''cellranger_inputs'' (run_id @ ''_S1_L001_R1_001.fastq.gz'')
    \<and> remote_path f2 = runs_path run_id ''preprocessing'' (run_id @ ''_linker2_R2.fastq.gz''))
   \<and> (process_bc_task e r2' run_id w' = (Inr d, w2) \<longrightarrow>
        dir_remote_path d = runs_path run_id ''cellranger_inputs'' [])
   \<and> (cellranger_task e input_dir run_id species w'' = (Inr d', w3) \<longrightarrow>
        dir_remote_path d' = runs_path run_id ''outs'' [])
   \<and> dir_remote_path (cellranger_outs e run_id) = runs_path run_id ''outs'' []
   \<and> set [''cellranger_inputs'', ''preprocessing'', ''outs''] \<subseteq> set categories
   \<and> (\<forall>c n. \<exists>rest. runs_path run_id c n = ''latch:///runs/'' @ run_id @ ''/'' @ rest)"
proof (intro conjI impI)
  assume a: "filter_task e r1 r2 run_id w = (Inr (f1, f2), w1)"
  from filter_task_Inr [OF a] obtain rc1 fs1 rc2 fs2 where
    "run_tool e (u_bbduk1_cmd e r1 r2 run_id) (fs w) = Some (rc1, fs1)"
    "run_tool e (u_bbduk2_cmd e run_id) fs1 = Some (rc2, fs2)" by blast
  from filter_task_started [OF this] a
  show "remote_path f1 = runs_path run_id ''cellranger_inputs'' (run_id @ ''_S1_L001_R1_001.fastq.gz'')"
    and "remote_path f2 = runs_path run_id ''preprocessing'' (run_id @ ''_linker2_R2.fastq.gz'')"
    by (auto simp: runs_path_def)
next
  assume "process_bc_task e r2' run_id w' = (Inr d, w2)"
  from process_bc_task_Inr [OF this]
  show "dir_remote_path d = runs_path run_id ''cellranger_inputs'' []"
    by (simp add: runs_path_def)
next
  assume "cellranger_task e input_dir run_id species w'' = (Inr d', w3)"
  from cellranger_task_Inr [OF this]
  show "dir_remote_path d' = runs_path run_id ''outs'' []"
    by (simp add: cellranger_outs_def runs_path_def)
next
  show "dir_remote_path (cellranger_outs e run_id) = runs_path run_id ''outs'' []"
    by (simp add: cellranger_outs_def runs_path_def)
  show "set [''cellranger_inputs'', ''preprocessing'', ''outs''] \<subseteq> set categories"
    by (simp add: categories_def)
  show "\<forall>c n. \<exists>rest. runs_path run_id c n = ''latch:///runs/'' @ run_id @ ''/'' @ rest"
    by (simp add: runs_path_def)
qed

theorem published_paths_in_run_namespace_witness:
  "filter_task (demo_env 0) (test_data_r1 ''/root/r1.fastq.gz'') (test_data_r2 ''/root/r2.fastq.gz'')
      ''D01033_NG01681'' demo_world =
     (Inr (LatchFile ''/root/D01033_NG01681_linker2_R1.fastq.gz''
             ''latch:///runs/D01033_NG01681/cellranger_inputs/D01033_NG01681_S1_L001_R1_001.fastq.gz'',
           LatchFile ''/root/D01033_NG01681_linker2_R2.fastq.gz''
             ''latch:///runs/D01033_NG01681/preprocessing/D01033_NG01681_linker2_R2.fastq.gz''),
      \<lparr>fs = {}, procs =
         [u_bbduk1_cmd (demo_env 0) (test_data_r1 ''/root/r1.fastq.gz'')
            (test_data_r2 ''/root/r2.fastq.gz'') ''D01033_NG01681'',
          u_bbduk2_cmd (demo_env 0) ''D01033_NG01681'']\<rparr>)
   \<and> runs_path ''D01033_NG01681'' ''cellranger_inputs'' ''D01033_NG01681_S1_L001_R1_001.fastq.gz'' =
       ''latch:///runs/D01033_NG01681/cellranger_inputs/D01033_NG01681_S1_L001_R1_001.fastq.gz''
   \<and> runs_path ''D01033_NG01681'' ''preprocessing'' ''D01033_NG01681_linker2_R2.fastq.gz'' =
       ''latch:///runs/D01033_NG01681/preprocessing/D01033_NG01681_linker2_R2.fastq.gz''
   \<and> process_bc_task (demo_env 0)
        (LatchFile ''/root/D01033_NG01681_linker2_R2.fastq.gz''
           ''latch:///runs/D01033_NG01681/preprocessing/D01033_NG01681_linker2_R2.fastq.gz'')
        ''D01033_NG01681'' demo_world =
       (Inr (LatchDir ''/root/cellranger_inputs'' ''latch:///runs/D01033_NG01681/cellranger_inputs/''),
        \<lparr>fs = {''/root/cellranger_inputs''}, procs =
           [u_bc_cmd (demo_env 0)
              (LatchFile ''/root/D01033_NG01681_linker2_R2.fastq.gz''
                 ''latch:///runs/D01033_NG01681/preprocessing/D01033_NG01681_linker2_R2.fastq.gz'')
              ''D01033_NG01681'']\<rparr>)
   \<and> runs_path ''D01033_NG01681'' ''cellranger_inputs'' [] =
       ''latch:///runs/D01033_NG01681/cellranger_inputs/''"
proof -
  note f = demo_filter_task [of 0]
  note p = demo_process_bc_task [of 0]
  from published_paths_in_run_namespace [of "demo_env 0" "test_data_r1 ''/root/r1.fastq.gz''"
      "test_data_r2 ''/root/r2.fastq.gz''" "''D01033_NG01681''" demo_world
      "LatchFile ''/root/D01033_NG01681_linker2_R1.fastq.gz''
             ''latch:///runs/D01033_NG01681/cellranger_inputs/D01033_NG01681_S1_L001_R1_001.fastq.gz''"
      "LatchFile ''/root/D01033_NG01681_linker2_R2.fastq.gz''
             ''latch:///runs/D01033_NG01681/preprocessing/D01033_NG01681_linker2_R2.fastq.gz''"
      _ "LatchFile ''/root/D01033_NG01681_linker2_R2.fastq.gz''
           ''latch:///runs/D01033_NG01681/preprocessing/D01033_NG01681_linker2_R2.fastq.gz''"
      demo_world
      "LatchDir ''/root/cellranger_inputs'' ''latch:///runs/D01033_NG01681/cellranger_inputs/''"
      ] f p
  show ?thesis by simp
qed

subsection \<open>Pipeline entry\<close>

text \<open>
  C4, as the code has it. The workflow makes no check of the run identifier: for every
  string, matching the pattern or not, it starts the filter stage, and the first filter
  command is run whenever the tool can be started. The pattern is only declared, as a
  rule in the parameter metadata. In every engine a string \<open>D\<close>, five digits, \<open>_NG\<close>,
  five digits satisfies the rule, and it also matches the pattern as the specification
  words it; a string that satisfies the rule has that form, with the engine's digits and
  possibly a final newline; read over ASCII digits and the whole string, the rule is
  satisfied by exactly these strings.
\<close>

theorem run_id_declared_not_checked:
  "(run_tool e (u_bbduk1_cmd e r1 r2 run_id) (fs w) = Some (rc1, fs1) \<longrightarrow>
      (\<exists>rest. procs (snd (spatial_atac e r1 r2 run_id species w)) =
         procs w @ u_bbduk1_cmd e r1 r2 run_id # rest))
   \<and> ((\<exists>a b. run_id = ''D'' @ a @ ''_NG'' @ b \<and> length a = 5 \<and> length b = 5
          \<and> list_all is_digit a \<and> list_all is_digit b)
        \<longrightarrow> run_id_rule g run_id \<and> spec_run_id_pattern run_id)
   \<and> (run_id_rule g run_id \<longrightarrow>
        (\<exists>a b n. run_id = ''D'' @ a @ ''_NG'' @ b @ n \<and> length a = 5 \<and> length b = 5
           \<and> list_all (engine_digit g) a \<and> list_all (engine_digit g) b
           \<and> (n = [] \<or> dollar_newline g \<and> n = [CHR 0x0A])))
   \<and> (run_id_rule strict_engine run_id \<longleftrightarrow>
        (\<exists>a b. run_id = ''D'' @ a @ ''_NG'' @ b \<and> length a = 5 \<and> length b = 5
          \<and> list_all is_digit a \<and> list_all is_digit b))"
proof (intro conjI impI)
  assume "run_tool e (u_bbduk1_cmd e r1 r2 run_id) (fs w) = Some (rc1, fs1)"
  then show "\<exists>rest. procs (snd (spatial_atac e r1 r2 run_id species w)) =
         procs w @ u_bbduk1_cmd e r1 r2 run_id # rest"
    by (rule spatial_atac_runs_first_command)
next
  assume "\<exists>a b. run_id = ''D'' @ a @ ''_NG'' @ b \<and> length a = 5 \<and> length b = 5
          \<and> list_all is_digit a \<and> list_all is_digit b"
  then obtain a b where "run_id = ''D'' @ a @ ''_NG'' @ b" "length a = 5" "length b = 5"
    "list_all is_digit a" "list_all is_digit b" by blast
  then show "run_id_rule g run_id" and "spec_run_id_pattern run_id"
    by (rule run_id_rule_exact, rule exact_matches_words)
next
  assume "run_id_rule g run_id"
  then show "\<exists>a b n. run_id = ''D'' @ a @ ''_NG'' @ b @ n \<and> length a = 5 \<and> length b = 5
           \<and> list_all (engine_digit g) a \<and> list_all (engine_digit g) b
           \<and> (n = [] \<or> dollar_newline g \<and> n = [CHR 0x0A])"
    by (rule run_id_rule_form)
next
  show "run_id_rule strict_engine run_id \<longleftrightarrow>
        (\<exists>a b. run_id = ''D'' @ a @ ''_NG'' @ b \<and> length a = 5 \<and> length b = 5
          \<and> list_all is_digit a \<and> list_all is_digit b)"
  proof
    assume "run_id_rule strict_engine run_id"
    from run_id_rule_form [OF this] obtain a b n where
      r: "run_id = ''D'' @ a @ ''_NG'' @ b @ n" "length a = 5" "length b = 5"
        "list_all is_digit a" "list_all is_digit b"
      and n: "n = [] \<or> dollar_newline strict_engine \<and> n = [CHR 0x0A]"
      unfolding strict_engine_digit by blast
    from n have "n = []" by (simp add: strict_engine_def)
    with r show "\<exists>a b. run_id = ''D'' @ a @ ''_NG'' @ b \<and> length a = 5 \<and> length b = 5
          \<and> list_all is_digit a \<and> list_all is_digit b"
      by (intro exI[of _ a] exI[of _ b]) simp
  next
    assume "\<exists>a b. run_id = ''D'' @ a @ ''_NG'' @ b \<and> length a = 5 \<and> length b = 5
          \<and> list_all is_digit a \<and> list_all is_digit b"
    then obtain a b where "run_id = ''D'' @ a @ ''_NG'' @ b" "length a = 5" "length b = 5"
      "list_all is_digit a" "list_all is_digit b" by blast
    then show "run_id_rule strict_engine run_id" by (rule run_id_rule_exact)
  qed
qed

theorem run_id_declared_not_checked_witness:
  "(\<exists>rest. procs (snd (spatial_atac (demo_env 0) (test_data_r1 ''/root/r1.fastq.gz'')
        (test_data_r2 ''/root/r2.fastq.gz'') ''D01033_NG01681'' human demo_world)) =
      procs demo_world @ u_bbduk1_cmd (demo_env 0) (test_data_r1 ''/root/r1.fastq.gz'')
        (test_data_r2 ''/root/r2.fastq.gz'') ''D01033_NG01681'' # rest)
   \<and> run_id_rule lenient_engine ''D01033_NG01681''
   \<and> spec_run_id_pattern ''D01033_NG01681''
   \<and> (\<exists>a b n. ''D01033_NG01681'' = ''D'' @ a @ ''_NG'' @ b @ n \<and> length a = 5 \<and> length b = 5
           \<and> list_all (engine_digit lenient_engine) a \<and> list_all (engine_digit lenient_engine) b
           \<and> (n = [] \<or> dollar_newline lenient_engine \<and> n = [CHR 0x0A]))"
proof -
  have h1: "run_tool (demo_env 0) (u_bbduk1_cmd (demo_env 0) (test_data_r1 ''/root/r1.fastq.gz'')
        (test_data_r2 ''/root/r2.fastq.gz'') ''D01033_NG01681'') (fs demo_world) = Some (0, {})"
    by (simp add: demo_env_def demo_world_def)
  have h2: "\<exists>a b. ''D01033_NG01681'' = ''D'' @ a @ ''_NG'' @ b \<and> length a = 5 \<and> length b = 5
          \<and> list_all is_digit a \<and> list_all is_digit b"
    by (intro exI[of _ "''01033''"] exI[of _ "''01681''"]) (simp add: is_digit_def)
  from run_id_declared_not_checked [of "demo_env 0" "test_data_r1 ''/root/r1.fastq.gz''"
      "test_data_r2 ''/root/r2.fastq.gz''" "''D01033_NG01681''" demo_world 0 "{}" human
      lenient_engine] h1 h2
  show ?thesis by blast
qed

text \<open>
  As the specification words it, the property fails in both directions. The string \<open>x\<close> matches neither the
  worded pattern nor the rule, and the workflow runs both filter passes and the splitter
  for it. The string \<open>A01033_BC01681\<close> matches the worded pattern, and no engine's
  reading of the declared rule accepts it.
\<close>

theorem run_id_claim_counterexample:
  "\<not> spec_run_id_pattern ''x''
   \<and> \<not> run_id_rule strict_engine ''x''
   \<and> \<not> run_id_rule lenient_engine ''x''
   \<and> procs demo_world = []
   \<and> procs (snd (spatial_atac (demo_env 0) (test_data_r1 ''/root/r1.fastq.gz'')
        (test_data_r2 ''/root/r2.fastq.gz'') ''x'' human demo_world)) =
       [u_bbduk1_cmd (demo_env 0) (test_data_r1 ''/root/r1.fastq.gz'')
          (test_data_r2 ''/root/r2.fastq.gz'') ''x'',
        u_bbduk2_cmd (demo_env 0) ''x'',
        u_bc_cmd (demo_env 0)
          (LatchFile ''/root/x_linker2_R2.fastq.gz''
             ''latch:///runs/x/preprocessing/x_linker2_R2.fastq.gz'') ''x'']
   \<and> spec_run_id_pattern ''A01033_BC01681''
   \<and> \<not> run_id_rule strict_engine ''A01033_BC01681''
   \<and> \<not> run_id_rule lenient_engine ''A01033_BC01681''"
proof (intro conjI)
  show "\<not> spec_run_id_pattern ''x''"
    by (simp add: spec_run_id_pattern_def is_letter_def Let_def)
  show "\<not> run_id_rule strict_engine ''x''" "\<not> run_id_rule lenient_engine ''x''"
    by (simp_all add: run_id_rule_def regex_match_def run_id_items)
  show "procs demo_world = []" by (simp add: demo_world_def)
  show "procs (snd (spatial_atac (demo_env 0) (test_data_r1 ''/root/r1.fastq.gz'')
        (test_data_r2 ''/root/r2.fastq.gz'') ''x'' human demo_world)) =
       [u_bbduk1_cmd (demo_env 0) (test_data_r1 ''/root/r1.fastq.gz'')
          (test_data_r2 ''/root/r2.fastq.gz'') ''x'',
        u_bbduk2_cmd (demo_env 0) ''x'',
        u_bc_cmd (demo_env 0)
          (LatchFile ''/root/x_linker2_R2.fastq.gz''
             ''latch:///runs/x/preprocessing/x_linker2_R2.fastq.gz'') ''x'']"
    by (simp add: spatial_atac_def filter_task_def process_bc_task_def os_mkdir_def
        subprocess_run_def cellranger_task_raises demo_env_def demo_world_def demo_resolve_def
        Let_def)
  show "spec_run_id_pattern ''A01033_BC01681''"
    by (simp add: spec_run_id_pattern_def is_letter_def is_digit_def Let_def)
  show "\<not> run_id_rule strict_engine ''A01033_BC01681''"
    "\<not> run_id_rule lenient_engine ''A01033_BC01681''"
    by (simp_all add: run_id_rule_def regex_match_def run_id_items)
qed

end
